theory Spec2Isabelle
  imports Main
begin

section \<open>The Bigtable instance-admin example program\<close>

text \<open>
  A shallow embedding of \<^verbatim>\<open>bigtable_hello_instance_admin.cc\<close>. The program is one
  function, \<^verbatim>\<open>main\<close>, that talks to an admin client of the client library. The library is
  not part of the program: the client is a parameter of the model (a record of its
  operations over a state of the client's own), and the run of the program is the
  exit of \<^verbatim>\<open>main\<close> together with the trace of what it did, in order: the
  connection, every admin call with its request and its response, the wait on the
  future, and every write to the two output streams. The client reports a failure in
  the status of its result, as its interface says; an exception thrown from inside the
  library is not part of the model.
\<close>

subsection \<open>The client library's types, as the program uses them\<close>

text \<open>
  \<^verbatim>\<open>google::cloud::Status\<close>: a code and a message; \<^verbatim>\<open>ok()\<close> is code zero.
\<close>

datatype Status = Status (code: nat) (message: string)

definition ok :: "Status \<Rightarrow> bool" where
  "ok st = (code st = 0)"

text \<open>
  \<^verbatim>\<open>StatusOr<T>\<close> holds a value or the status of a failure (the library refuses to
  build one from an OK status). The conversion to \<^verbatim>\<open>bool\<close> tells whether it holds a
  value, \<^verbatim>\<open>status()\<close> of one holding a value is the OK status.
\<close>

type_synonym 'a StatusOr = "Status + 'a"

definition has_value :: "'a StatusOr \<Rightarrow> bool" where
  "has_value r = (case r of Inl _ \<Rightarrow> False | Inr _ \<Rightarrow> True)"

definition status :: "'a StatusOr \<Rightarrow> Status" where
  "status r = (case r of Inl st \<Rightarrow> st | Inr _ \<Rightarrow> Status 0 [])"

text \<open>
  The two protocol messages, by what the program reads of them: the name of an
  instance and its \<^verbatim>\<open>DebugString()\<close>, the name of a cluster.
\<close>

datatype Instance = Instance (name: string) (DebugString: string)

datatype Cluster = Cluster (name: string)

datatype InstanceList =
  InstanceList (instances: "Instance list") (failed_locations: "string list")

datatype ClusterList =
  ClusterList (clusters: "Cluster list") (failed_locations: "string list")

text \<open>
  The configuration of a new instance. \<^verbatim>\<open>ClusterConfig(location, serve_nodes, storage)\<close>
  and \<^verbatim>\<open>InstanceConfig(instance_id, display_name, clusters)\<close> keep their arguments;
  the type of the instance is unspecified until \<^verbatim>\<open>set_type\<close>. The clusters are a
  \<^verbatim>\<open>std::map\<close> from cluster id to configuration, here the list of its entries.
\<close>

datatype StorageType = STORAGE_TYPE_UNSPECIFIED | SSD | HDD

datatype ClusterConfig =
  ClusterConfig (location: string) (serve_nodes: int) (storage: StorageType)

datatype InstanceType = TYPE_UNSPECIFIED | PRODUCTION | DEVELOPMENT

datatype InstanceConfig =
  MkInstanceConfig (instance_id: string) (display_name: string)
    (type: InstanceType) (clusters: "(string \<times> ClusterConfig) list")

definition InstanceConfig :: "string \<Rightarrow> string \<Rightarrow> (string \<times> ClusterConfig) list \<Rightarrow> InstanceConfig" where
  "InstanceConfig iid dname cs = MkInstanceConfig iid dname TYPE_UNSPECIFIED cs"

fun set_type :: "InstanceConfig \<Rightarrow> InstanceType \<Rightarrow> InstanceConfig" where
  "set_type (MkInstanceConfig iid dname _ cs) t = MkInstanceConfig iid dname t cs"

text \<open>
  The admin client: \<^verbatim>\<open>CreateDefaultInstanceAdminClient\<close> and the constructor of
  \<^verbatim>\<open>InstanceAdmin\<close> give the client for a project; each operation answers and may
  change the client's (and the service's) state. \<^verbatim>\<open>CreateInstance\<close> answers with a
  future; its field here is the result the future is satisfied with.
\<close>

record 's InstanceAdmin =
  CreateDefaultInstanceAdminClient :: "string \<Rightarrow> 's"
  project_name :: "'s \<Rightarrow> string"
  ListInstances :: "'s \<Rightarrow> InstanceList StatusOr \<times> 's"
  CreateInstance :: "InstanceConfig \<Rightarrow> 's \<Rightarrow> Instance StatusOr \<times> 's"
  GetInstance :: "string \<Rightarrow> 's \<Rightarrow> Instance StatusOr \<times> 's"
  ListClusters :: "string \<Rightarrow> 's \<Rightarrow> ClusterList StatusOr \<times> 's"
  DeleteInstance :: "string \<Rightarrow> 's \<Rightarrow> Status \<times> 's"

subsection \<open>Runs: events, control and the exit\<close>

datatype request =
    ListInstances_req
  | CreateInstance_req InstanceConfig
  | GetInstance_req string
  | ListClusters_req string
  | DeleteInstance_req string

datatype response =
    InstanceList_resp "InstanceList StatusOr"
  | Instance_resp "Instance StatusOr"
  | ClusterList_resp "ClusterList StatusOr"
  | Status_resp Status

text \<open>
  An event of a run. \<open>Call l rq rs\<close> is the admin call at line \<open>l\<close> of the source file,
  \<open>Wait l\<close> the blocking \<^verbatim>\<open>get()\<close> at line \<open>l\<close> on a future that need not be satisfied
  yet, \<open>Cout\<close> and \<open>Cerr\<close> one statement's writes to the stream.
\<close>

datatype event =
    Connect string
  | Call nat request response
  | Wait nat
  | Cout string
  | Cerr string

text \<open>
  What the program text leaves undefined: a \<^verbatim>\<open>std::string\<close> built from the null
  pointer \<^verbatim>\<open>argv[argc]\<close>, and the value of a \<^verbatim>\<open>StatusOr\<close> that holds a failure.
\<close>

datatype undefined_behaviour = NullArgv | BadStatusOrAccess

text \<open>
  How a statement ends: normally, by a thrown \<^verbatim>\<open>std::exception\<close> (the string it
  was built from), or undefined.
\<close>

datatype 'a ctl = Normal 'a | Throw string | Undefined undefined_behaviour

datatype exit = Exit int | UndefinedBehaviour undefined_behaviour

type_synonym ('w, 'a) prog = "'w \<times> event list \<Rightarrow> 'a ctl \<times> 'w \<times> event list"

definition seq :: "('w, 'a) prog \<Rightarrow> ('a \<Rightarrow> ('w, 'b) prog) \<Rightarrow> ('w, 'b) prog" where
  "seq m f = (\<lambda>w. case m w of
      (Normal a, w') \<Rightarrow> f a w'
    | (Throw e, w') \<Rightarrow> (Throw e, w')
    | (Undefined u, w') \<Rightarrow> (Undefined u, w'))"

definition return :: "'a \<Rightarrow> ('w, 'a) prog" where
  "return a = (\<lambda>w. (Normal a, w))"

definition throw_runtime_error :: "string \<Rightarrow> ('w, 'a) prog" where
  "throw_runtime_error msg = (\<lambda>w. (Throw msg, w))"

definition throw_out_of_range :: "string \<Rightarrow> ('w, 'a) prog" where
  "throw_out_of_range msg = (\<lambda>w. (Throw msg, w))"

definition emit :: "event \<Rightarrow> ('w, unit) prog" where
  "emit e = (\<lambda>(s, tr). (Normal (), s, tr @ [e]))"

definition cout :: "string \<Rightarrow> ('w, unit) prog" where
  "cout str = emit (Cout str)"

definition cerr :: "string \<Rightarrow> ('w, unit) prog" where
  "cerr str = emit (Cerr str)"

text \<open>The body of a guard \<^verbatim>\<open>if (c) { ... }\<close> with no else branch.\<close>

definition if_then :: "bool \<Rightarrow> ('w, unit) prog \<Rightarrow> ('w, unit) prog" where
  "if_then c m = (if c then m else return ())"

text \<open>A range-based \<^verbatim>\<open>for\<close> loop over a container.\<close>

fun for_each :: "'a list \<Rightarrow> ('a \<Rightarrow> ('w, unit) prog) \<Rightarrow> ('w, unit) prog" where
  "for_each [] body = return ()"
| "for_each (x # xs) body = seq (body x) (\<lambda>_. for_each xs body)"

text \<open>\<^verbatim>\<open>operator->\<close> and \<^verbatim>\<open>operator*\<close> of a \<^verbatim>\<open>StatusOr\<close>: the value, undefined without one.\<close>

definition deref :: "'a StatusOr \<Rightarrow> ('w, 'a) prog" where
  "deref r = (\<lambda>w. case r of
      Inl _ \<Rightarrow> (Undefined BadStatusOrAccess, w)
    | Inr v \<Rightarrow> (Normal v, w))"

text \<open>An admin call at a line of the source: the client answers and moves on, the call is recorded.\<close>

definition call :: "nat \<Rightarrow> request \<Rightarrow> ('s \<Rightarrow> 'r \<times> 's) \<Rightarrow> ('r \<Rightarrow> response) \<Rightarrow> ('s, 'r) prog" where
  "call l rq op wrap = (\<lambda>(s, tr). case op s of
      (r, s') \<Rightarrow> (Normal r, s', tr @ [Call l rq (wrap r)]))"

text \<open>A \<^verbatim>\<open>const\<close> accessor of the client.\<close>

definition query :: "('s \<Rightarrow> 'a) \<Rightarrow> ('s, 'a) prog" where
  "query f = (\<lambda>(s, tr). (Normal (f s), s, tr))"

text \<open>
  \<^verbatim>\<open>get()\<close> at line \<open>l\<close> on the future of a continuation: it returns once the
  continuation has run, and rethrows what the continuation threw.
\<close>

definition future_get :: "nat \<Rightarrow> ('w, 'a) prog \<Rightarrow> ('w, 'a) prog" where
  "future_get l continuation = (\<lambda>w. case continuation w of
      (r, s, tr) \<Rightarrow> (r, s, tr @ [Wait l]))"

subsection \<open>The usage message\<close>

text \<open>
  \<^verbatim>\<open>std::string::find_last_of(char)\<close>: the last position of the character, \<open>None\<close> for
  \<^verbatim>\<open>npos\<close>.
\<close>

fun find_last_of :: "string \<Rightarrow> char \<Rightarrow> nat option" where
  "find_last_of [] c = None"
| "find_last_of (x # xs) c =
     (case find_last_of xs c of
        Some i \<Rightarrow> Some (Suc i)
      | None \<Rightarrow> if x = c then Some 0 else None)"

text \<open>\<^verbatim>\<open>last_slash + 1\<close> in \<^verbatim>\<open>size_t\<close>: \<^verbatim>\<open>npos\<close> is the largest value, and wraps to zero.\<close>

definition plus_one :: "nat option \<Rightarrow> nat" where
  "plus_one p = (case p of None \<Rightarrow> 0 | Some i \<Rightarrow> i + 1)"

text \<open>\<^verbatim>\<open>std::string::substr(pos)\<close>: throws \<^verbatim>\<open>std::out_of_range\<close> when \<open>pos\<close> is beyond the size.\<close>

definition substr :: "string \<Rightarrow> nat \<Rightarrow> ('w, string) prog" where
  "substr s pos =
     (if pos > length s then throw_out_of_range ''basic_string::substr''
      else return (drop pos s))"

definition usage_text :: "string \<Rightarrow> string" where
  "usage_text program =
     ''\<newline>Usage: '' @ program @ '' <project-id> <instance-id> <cluster-id> <zone>\<newline>\<newline>''
     @ ''Example: '' @ program @ '' my-project my-instance my-instance-c1 us-central1-f\<newline>''"

text \<open>Lines 23 to 32: the branch for a wrong number of arguments; \<open>argv ! 0\<close> is null when there is none.\<close>

definition usage :: "string list \<Rightarrow> (unit, int) prog" where
  "usage argv =
     (case argv of
        [] \<Rightarrow> (\<lambda>w. (Undefined NullArgv, w))
      | cmd # _ \<Rightarrow>
          (let last_slash = find_last_of cmd CHR ''/'' in
           seq (substr cmd (plus_one last_slash)) (\<lambda>program.
           seq (cerr (usage_text program)) (\<lambda>_.
           return 1))))"

subsection \<open>The admin operations of \<^verbatim>\<open>main\<close>\<close>

definition warn_cerr :: "string list \<Rightarrow> ('w, unit) prog" where
  "warn_cerr locations =
     seq (cerr ''The service tells us it has no information about these locations:'') (\<lambda>_.
     seq (for_each locations (\<lambda>failed_location. cerr ('' '' @ failed_location))) (\<lambda>_.
     cerr ''. Continuing anyway\<newline>''))"

text \<open>Lines 52 to 74: does the instance exist?\<close>

definition check_instance_exists :: "'s InstanceAdmin \<Rightarrow> string \<Rightarrow> ('s, bool) prog" where
  "check_instance_exists instance_admin iid =
     seq (cout ''\<newline>Check Instance exists:\<newline>'') (\<lambda>_.
     seq (call 53 ListInstances_req (ListInstances instance_admin) InstanceList_resp) (\<lambda>instances.
     seq (if_then (\<not> has_value instances) (throw_runtime_error (message (status instances)))) (\<lambda>_.
     seq (deref instances) (\<lambda>il.
     seq (if_then (InstanceList.failed_locations il \<noteq> [])
            (seq (deref instances) (\<lambda>il. warn_cerr (InstanceList.failed_locations il)))) (\<lambda>_.
     seq (query (project_name instance_admin)) (\<lambda>project.
     (let instance_name = project @ ''/instances/'' @ iid in
      seq (deref instances) (\<lambda>il.
      (let instance_name_it = find (\<lambda>i. Instance.name i = instance_name) (InstanceList.instances il);
           instance_exists = (instance_name_it \<noteq> None) in
       seq (cout (''The instance '' @ iid
                  @ (if instance_exists then ''does'' else ''does not'')
                  @ '' exist already\<newline>'')) (\<lambda>_.
       return instance_exists))))))))))"

text \<open>
  Lines 90 to 100: the continuation attached to the future of \<^verbatim>\<open>CreateInstance\<close>.
  It runs once that future is satisfied, so its \<^verbatim>\<open>f.get()\<close> returns the result at
  once and is no wait.
\<close>

definition creation_continuation :: "string \<Rightarrow> Instance StatusOr \<Rightarrow> ('w, unit) prog" where
  "creation_continuation iid f =
     (let instance = f in
      seq (if_then (\<not> has_value instance)
             (seq (cerr (''Could not create instance '' @ iid @ ''\<newline>'')) (\<lambda>_.
              throw_runtime_error (message (status instance))))) (\<lambda>_.
      seq (deref instance) (\<lambda>i.
      cout (''Successfully created instance: '' @ DebugString i @ ''\<newline>''))))"

text \<open>Lines 80 to 104: create the instance.\<close>

definition create_production_instance ::
  "'s InstanceAdmin \<Rightarrow> string \<Rightarrow> string \<Rightarrow> string \<Rightarrow> ('s, unit) prog" where
  "create_production_instance instance_admin iid cluster_id zone =
     seq (cout ''\<newline>Creating a PRODUCTION Instance: '') (\<lambda>_.
     (let cluster_config = ClusterConfig zone 3 HDD;
          config = set_type (InstanceConfig iid ''Sample Instance'' [(cluster_id, cluster_config)])
                     PRODUCTION in
      seq (call 89 (CreateInstance_req config) (CreateInstance instance_admin config) Instance_resp)
        (\<lambda>f.
      seq (future_get 103 (creation_continuation iid f)) (\<lambda>_.
      cout ''DONE\<newline>''))))"

text \<open>Lines 109 to 125: list the instances.\<close>

definition list_instances :: "'s InstanceAdmin \<Rightarrow> ('s, unit) prog" where
  "list_instances instance_admin =
     seq (cout ''\<newline>Listing Instances:\<newline>'') (\<lambda>_.
     seq (call 110 ListInstances_req (ListInstances instance_admin) InstanceList_resp) (\<lambda>instances.
     seq (if_then (\<not> has_value instances) (throw_runtime_error (message (status instances)))) (\<lambda>_.
     seq (deref instances) (\<lambda>il.
     seq (if_then (InstanceList.failed_locations il \<noteq> [])
            (seq (deref instances) (\<lambda>il. warn_cerr (InstanceList.failed_locations il)))) (\<lambda>_.
     seq (deref instances) (\<lambda>il.
     seq (for_each (InstanceList.instances il) (\<lambda>instance. cout (''  '' @ Instance.name instance @ ''\<newline>''))) (\<lambda>_.
     cout ''DONE\<newline>'')))))))"

text \<open>Lines 129 to 134: fetch the instance.\<close>

definition get_instance :: "'s InstanceAdmin \<Rightarrow> string \<Rightarrow> ('s, unit) prog" where
  "get_instance instance_admin iid =
     seq (cout ''\<newline>Get Instance:\<newline>'') (\<lambda>_.
     seq (call 130 (GetInstance_req iid) (GetInstance instance_admin iid) Instance_resp) (\<lambda>instance.
     seq (if_then (\<not> has_value instance) (throw_runtime_error (message (status instance)))) (\<lambda>_.
     seq (deref instance) (\<lambda>i.
     cout (''Instance details :\<newline>'' @ DebugString i @ ''\<newline>'')))))"

text \<open>Lines 138 to 156: list the clusters of the instance.\<close>

definition list_clusters :: "'s InstanceAdmin \<Rightarrow> string \<Rightarrow> ('s, unit) prog" where
  "list_clusters instance_admin iid =
     seq (cout ''\<newline>Listing Clusters:\<newline>'') (\<lambda>_.
     seq (call 140 (ListClusters_req iid) (ListClusters instance_admin iid) ClusterList_resp)
       (\<lambda>cluster_list.
     seq (if_then (\<not> has_value cluster_list) (throw_runtime_error (message (status cluster_list)))) (\<lambda>_.
     seq (deref cluster_list) (\<lambda>cl.
     seq (if_then (ClusterList.failed_locations cl \<noteq> [])
            (seq (cout (''The Cloud Bigtable service reports that the following ''
                        @ ''locations are temporarily unavailable and no information ''
                        @ ''about clusters in these locations can be obtained:\<newline>'')) (\<lambda>_.
             seq (deref cluster_list) (\<lambda>cl.
             for_each (ClusterList.failed_locations cl)
               (\<lambda>failed_location. cout (failed_location @ ''\<newline>''))))))
       (\<lambda>_.
     seq (cout ''Cluster Name List:\<newline>'') (\<lambda>_.
     seq (deref cluster_list) (\<lambda>cl.
     seq (for_each (ClusterList.clusters cl) (\<lambda>cluster. cout (''Cluster Name: '' @ Cluster.name cluster @ ''\<newline>'')))
       (\<lambda>_.
     cout ''DONE\<newline>''))))))))"

text \<open>Lines 160 to 166: delete the instance.\<close>

definition delete_instance :: "'s InstanceAdmin \<Rightarrow> string \<Rightarrow> ('s, unit) prog" where
  "delete_instance instance_admin iid =
     seq (cout (''Deleting instance '' @ iid @ ''\<newline>'')) (\<lambda>_.
     seq (call 162 (DeleteInstance_req iid) (DeleteInstance instance_admin iid) Status_resp)
       (\<lambda>delete_status.
     seq (if_then (\<not> ok delete_status) (throw_runtime_error (message delete_status))) (\<lambda>_.
     cout ''DONE\<newline>'')))"

subsection \<open>\<^verbatim>\<open>main\<close>\<close>

text \<open>Lines 51 to 169, with the admin client connected.\<close>

definition admin_steps ::
  "'s InstanceAdmin \<Rightarrow> string \<Rightarrow> string \<Rightarrow> string \<Rightarrow> ('s, int) prog" where
  "admin_steps instance_admin iid cluster_id zone =
     seq (check_instance_exists instance_admin iid) (\<lambda>instance_exists.
     seq (if_then (\<not> instance_exists)
            (create_production_instance instance_admin iid cluster_id zone)) (\<lambda>_.
     seq (list_instances instance_admin) (\<lambda>_.
     seq (get_instance instance_admin iid) (\<lambda>_.
     seq (list_clusters instance_admin iid) (\<lambda>_.
     seq (delete_instance instance_admin iid) (\<lambda>_.
     return 0))))))"

text \<open>
  The handler of the function-try-block, lines 170 to 173, applied to how the body
  ended: a return, a thrown \<^verbatim>\<open>std::exception\<close>, or undefined behaviour.
\<close>

text \<open>
  \<^verbatim>\<open>what()\<close> of an exception built from a string: a \<^verbatim>\<open>const char*\<close> into that
  string, which a stream writes up to the first NUL byte.
\<close>

definition what :: "string \<Rightarrow> string" where
  "what msg = takeWhile (\<lambda>c. c \<noteq> CHR 0x00) msg"

definition catch_handler :: "int ctl \<times> 'w \<times> event list \<Rightarrow> exit \<times> event list" where
  "catch_handler r =
     (case r of
        (Normal n, _, tr) \<Rightarrow> (Exit n, tr)
      | (Throw msg, _, tr) \<Rightarrow>
          (Exit 1, tr @ [Cerr (''Standard C++ exception raised: '' @ what msg @ ''\<newline>'')])
      | (Undefined u, _, tr) \<Rightarrow> (UndefinedBehaviour u, tr))"

text \<open>\<^verbatim>\<open>main\<close>, lines 22 to 173; \<open>argc\<close> is the length of \<open>argv\<close>.\<close>

definition main :: "'s InstanceAdmin \<Rightarrow> string list \<Rightarrow> exit \<times> event list" where
  "main instance_admin argv =
     (if length argv \<noteq> 5 then catch_handler (usage argv ((), []))
      else
        (let project_id = argv ! 1;
             iid = argv ! 2;
             cluster_id = argv ! 3;
             zone = argv ! 4;
             s = CreateDefaultInstanceAdminClient instance_admin project_id in
         catch_handler
           (admin_steps instance_admin iid cluster_id zone (s, [Connect project_id]))))"

subsection \<open>Observations of a run\<close>

text \<open>The writes of the two warnings about failed locations, none for an empty list.\<close>

definition cerr_warning :: "string list \<Rightarrow> event list" where
  "cerr_warning locations =
     (if locations = [] then []
      else Cerr ''The service tells us it has no information about these locations:''
           # map (\<lambda>failed_location. Cerr ('' '' @ failed_location)) locations
           @ [Cerr ''. Continuing anyway\<newline>''])"

definition cout_warning :: "string list \<Rightarrow> event list" where
  "cout_warning locations =
     (if locations = [] then []
      else Cout (''The Cloud Bigtable service reports that the following ''
                 @ ''locations are temporarily unavailable and no information ''
                 @ ''about clusters in these locations can be obtained:\<newline>'')
           # map (\<lambda>failed_location. Cout (failed_location @ ''\<newline>'')) locations)"

text \<open>The writes to the two streams, among the events.\<close>

fun is_output :: "event \<Rightarrow> bool" where
  "is_output (Cout _) = True"
| "is_output (Cerr _) = True"
| "is_output _ = False"

text \<open>The admin calls of a trace, in order: line, request and response.\<close>

fun calls :: "event list \<Rightarrow> (nat \<times> request \<times> response) list" where
  "calls [] = []"
| "calls (Call l rq rs # tr) = (l, rq, rs) # calls tr"
| "calls (_ # tr) = calls tr"

text \<open>The operations of a trace, in order: the connection and the requests of the admin calls.\<close>

datatype operation = Connect_op string | Request request

fun operations :: "event list \<Rightarrow> operation list" where
  "operations [] = []"
| "operations (Connect p # tr) = Connect_op p # operations tr"
| "operations (Call l rq rs # tr) = Request rq # operations tr"
| "operations (_ # tr) = operations tr"

fun is_create :: "event \<Rightarrow> bool" where
  "is_create (Call l (CreateInstance_req config) rs) = True"
| "is_create _ = False"

definition create_invoked :: "event list \<Rightarrow> bool" where
  "create_invoked tr = list_ex is_create tr"

text \<open>The waits on a future of a trace, in order, by their lines.\<close>

fun waits :: "event list \<Rightarrow> nat list" where
  "waits [] = []"
| "waits (Wait l # tr) = l # waits tr"
| "waits (_ # tr) = waits tr"

text \<open>
  Whether an admin call succeeded, and its status: a \<^verbatim>\<open>StatusOr\<close> succeeded when it
  holds a value, a \<^verbatim>\<open>Status\<close> when it is OK.
\<close>

fun succeeded :: "response \<Rightarrow> bool" where
  "succeeded (InstanceList_resp r) = has_value r"
| "succeeded (Instance_resp r) = has_value r"
| "succeeded (ClusterList_resp r) = has_value r"
| "succeeded (Status_resp st) = ok st"

fun response_status :: "response \<Rightarrow> Status" where
  "response_status (InstanceList_resp r) = status r"
| "response_status (Instance_resp r) = status r"
| "response_status (ClusterList_resp r) = status r"
| "response_status (Status_resp st) = st"

text \<open>
  How the steps end, against their admin calls: a return of 0 after calls that all
  succeeded, or an exception thrown with the message of the last call, which failed.
\<close>

definition thrown_by_last_call :: "int ctl \<times> 's \<times> event list \<Rightarrow> bool" where
  "thrown_by_last_call x =
     (case x of
        (Normal n, s, tr) \<Rightarrow> n = 0 \<and> list_all (\<lambda>(l, rq, rs). succeeded rs) (calls tr)
      | (Throw msg, s, tr) \<Rightarrow>
          calls tr \<noteq> [] \<and> \<not> succeeded (snd (snd (last (calls tr))))
          \<and> msg = message (response_status (snd (snd (last (calls tr)))))
      | (Undefined u, s, tr) \<Rightarrow> False)"

text \<open>The lines of the source file that call an operation.\<close>

fun call_sites :: "request \<Rightarrow> nat list" where
  "call_sites ListInstances_req = [53, 110]"
| "call_sites (CreateInstance_req config) = [89]"
| "call_sites (GetInstance_req iid) = [130]"
| "call_sites (ListClusters_req iid) = [140]"
| "call_sites (DeleteInstance_req iid) = [162]"

text \<open>
  The instances a \<^verbatim>\<open>ListInstances\<close> result lists (a failure lists none), and whether
  an instance name is absent from it.
\<close>

definition listed :: "InstanceList StatusOr \<Rightarrow> Instance list" where
  "listed r = (case r of Inl _ \<Rightarrow> [] | Inr il \<Rightarrow> InstanceList.instances il)"

definition absent :: "InstanceList StatusOr \<Rightarrow> string \<Rightarrow> bool" where
  "absent r instance_name = (\<not> list_ex (\<lambda>i. Instance.name i = instance_name) (listed r))"

text \<open>The same client, but reporting no failed location.\<close>

definition clear_instances :: "InstanceList StatusOr \<Rightarrow> InstanceList StatusOr" where
  "clear_instances r =
     (case r of Inl st \<Rightarrow> Inl st | Inr il \<Rightarrow> Inr (InstanceList (InstanceList.instances il) []))"

definition clear_clusters :: "ClusterList StatusOr \<Rightarrow> ClusterList StatusOr" where
  "clear_clusters r =
     (case r of Inl st \<Rightarrow> Inl st | Inr cl \<Rightarrow> Inr (ClusterList (ClusterList.clusters cl) []))"

fun clear_response :: "response \<Rightarrow> response" where
  "clear_response (InstanceList_resp r) = InstanceList_resp (clear_instances r)"
| "clear_response (ClusterList_resp r) = ClusterList_resp (clear_clusters r)"
| "clear_response rs = rs"

definition without_failed_locations :: "'s InstanceAdmin \<Rightarrow> 's InstanceAdmin" where
  "without_failed_locations adm = adm\<lparr>
     ListInstances := (\<lambda>s. case ListInstances adm s of (r, s') \<Rightarrow> (clear_instances r, s')),
     ListClusters := (\<lambda>iid s. case ListClusters adm iid s of (r, s') \<Rightarrow> (clear_clusters r, s'))\<rparr>"

text \<open>
  Two ends of the steps that differ by the failed locations only: the same control,
  the same state of the client, and the same calls but for the failed locations of
  their results.
\<close>

definition unaffected :: "int ctl \<times> 's \<times> event list \<Rightarrow> int ctl \<times> 's \<times> event list \<Rightarrow> bool" where
  "unaffected x y =
     (fst x = fst y \<and> fst (snd x) = fst (snd y)
      \<and> calls (snd (snd x)) = map (\<lambda>(l, rq, rs). (l, rq, clear_response rs)) (calls (snd (snd y))))"

subsection \<open>A client for the examples\<close>

text \<open>
  An admin service kept in memory: the state is the project id and the ids of its
  instances, \<open>ids0\<close> at the connection. Every instance has one cluster.
\<close>

definition in_memory_admin :: "string list \<Rightarrow> (string \<times> string list) InstanceAdmin" where
  "in_memory_admin ids0 = \<lparr>
     CreateDefaultInstanceAdminClient = (\<lambda>project_id. (project_id, ids0)),
     project_name = (\<lambda>(p, ids). ''projects/'' @ p),
     ListInstances = (\<lambda>(p, ids).
       (Inr (InstanceList (map (\<lambda>i. Instance (''projects/'' @ p @ ''/instances/'' @ i) i) ids) []),
        (p, ids))),
     CreateInstance = (\<lambda>config (p, ids).
       (Inr (Instance (''projects/'' @ p @ ''/instances/'' @ instance_id config) (instance_id config)),
        (p, ids @ [instance_id config]))),
     GetInstance = (\<lambda>i (p, ids).
       (if i \<in> set ids then Inr (Instance (''projects/'' @ p @ ''/instances/'' @ i) i)
        else Inl (Status 5 ''not found''), (p, ids))),
     ListClusters = (\<lambda>i (p, ids).
       (if i \<in> set ids then Inr (ClusterList [Cluster (i @ ''-c1'')] [])
        else Inl (Status 5 ''not found''), (p, ids))),
     DeleteInstance = (\<lambda>i (p, ids).
       (if i \<in> set ids then Status 0 [] else Status 5 ''not found'', (p, removeAll i ids)))
   \<rparr>"

text \<open>The same service when listing the instances is unavailable.\<close>

definition unavailable_admin :: "(string \<times> string list) InstanceAdmin" where
  "unavailable_admin =
     (in_memory_admin [])\<lparr>ListInstances := (\<lambda>s. (Inl (Status 14 ''unavailable''), s))\<rparr>"

text \<open>The same failure, with a NUL byte in the message of its status.\<close>

definition nul_admin :: "(string \<times> string list) InstanceAdmin" where
  "nul_admin =
     (in_memory_admin [])\<lparr>ListInstances :=
       (\<lambda>s. (Inl (Status 14 [CHR ''a'', CHR 0x00, CHR ''b'']), s))\<rparr>"

text \<open>The same service when two locations fail to report.\<close>

definition partial_admin :: "(string \<times> string list) InstanceAdmin" where
  "partial_admin =
     (in_memory_admin [''i''])\<lparr>
       ListInstances := (\<lambda>s. (Inr (InstanceList [] [''us-east1-b'', ''us-west1-a'']), s)),
       ListClusters := (\<lambda>i s. (Inr (ClusterList [] [''us-east1-b'']), s))\<rparr>"

definition example_argv :: "string list" where
  "example_argv = [''./bin/hello'', ''p'', ''i'', ''c'', ''z'']"

section \<open>The steps of a run\<close>

subsection \<open>Each block of \<^verbatim>\<open>main\<close>, from a state and a trace\<close>

lemma for_each_cout_run:
  "for_each xs (\<lambda>x. cout (f x)) (s, tr) = (Normal (), s, tr @ map (\<lambda>x. Cout (f x)) xs)"
  by (induction xs arbitrary: tr) (simp_all add: return_def seq_def cout_def emit_def)

lemma for_each_cerr_run:
  "for_each xs (\<lambda>x. cerr (f x)) (s, tr) = (Normal (), s, tr @ map (\<lambda>x. Cerr (f x)) xs)"
  by (induction xs arbitrary: tr) (simp_all add: return_def seq_def cerr_def emit_def)

lemma cout_run: "cout str (s, tr) = (Normal (), s, tr @ [Cout str])"
  by (simp add: cout_def emit_def)

lemma cerr_run: "cerr str (s, tr) = (Normal (), s, tr @ [Cerr str])"
  by (simp add: cerr_def emit_def)

lemmas step_defs = seq_def return_def throw_runtime_error_def cout_run cerr_run
  if_then_def deref_def call_def query_def has_value_def status_def

lemma check_instance_exists_run:
  "check_instance_exists adm iid (s, tr) =
     (case ListInstances adm s of
        (Inl st, s') \<Rightarrow>
          (Throw (message st), s',
           tr @ [Cout ''\<newline>Check Instance exists:\<newline>'',
                 Call 53 ListInstances_req (InstanceList_resp (Inl st))])
      | (Inr il, s') \<Rightarrow>
          (let instance_exists =
             (find (\<lambda>i. Instance.name i = project_name adm s' @ ''/instances/'' @ iid)
                (InstanceList.instances il) \<noteq> None) in
           (Normal instance_exists, s',
            tr @ [Cout ''\<newline>Check Instance exists:\<newline>'',
                  Call 53 ListInstances_req (InstanceList_resp (Inr il))]
               @ cerr_warning (InstanceList.failed_locations il)
               @ [Cout (''The instance '' @ iid
                        @ (if instance_exists then ''does'' else ''does not'')
                        @ '' exist already\<newline>'')])))"
  unfolding check_instance_exists_def warn_cerr_def cerr_warning_def
  by (simp add: step_defs for_each_cerr_run Let_def split: prod.splits sum.splits)

lemma create_production_instance_run:
  "create_production_instance adm iid cluster_id zone (s, tr) =
     (let config = MkInstanceConfig iid ''Sample Instance'' PRODUCTION
                     [(cluster_id, ClusterConfig zone 3 HDD)] in
      case CreateInstance adm config s of
        (Inl st, s') \<Rightarrow>
          (Throw (message st), s',
           tr @ [Cout ''\<newline>Creating a PRODUCTION Instance: '',
                 Call 89 (CreateInstance_req config) (Instance_resp (Inl st)),
                 Cerr (''Could not create instance '' @ iid @ ''\<newline>''),
                 Wait 103])
      | (Inr i, s') \<Rightarrow>
          (Normal (), s',
           tr @ [Cout ''\<newline>Creating a PRODUCTION Instance: '',
                 Call 89 (CreateInstance_req config) (Instance_resp (Inr i)),
                 Cout (''Successfully created instance: '' @ DebugString i @ ''\<newline>''),
                 Wait 103,
                 Cout ''DONE\<newline>'']))"
  unfolding create_production_instance_def creation_continuation_def future_get_def
  by (simp add: step_defs InstanceConfig_def Let_def split: prod.splits sum.splits)

lemma list_instances_run:
  "list_instances adm (s, tr) =
     (case ListInstances adm s of
        (Inl st, s') \<Rightarrow>
          (Throw (message st), s',
           tr @ [Cout ''\<newline>Listing Instances:\<newline>'',
                 Call 110 ListInstances_req (InstanceList_resp (Inl st))])
      | (Inr il, s') \<Rightarrow>
          (Normal (), s',
           tr @ [Cout ''\<newline>Listing Instances:\<newline>'',
                 Call 110 ListInstances_req (InstanceList_resp (Inr il))]
              @ cerr_warning (InstanceList.failed_locations il)
              @ map (\<lambda>instance. Cout (''  '' @ Instance.name instance @ ''\<newline>''))
                  (InstanceList.instances il)
              @ [Cout ''DONE\<newline>'']))"
  unfolding list_instances_def warn_cerr_def cerr_warning_def
  by (simp add: step_defs for_each_cerr_run for_each_cout_run split: prod.splits sum.splits)

lemma get_instance_run:
  "get_instance adm iid (s, tr) =
     (case GetInstance adm iid s of
        (Inl st, s') \<Rightarrow>
          (Throw (message st), s',
           tr @ [Cout ''\<newline>Get Instance:\<newline>'',
                 Call 130 (GetInstance_req iid) (Instance_resp (Inl st))])
      | (Inr i, s') \<Rightarrow>
          (Normal (), s',
           tr @ [Cout ''\<newline>Get Instance:\<newline>'',
                 Call 130 (GetInstance_req iid) (Instance_resp (Inr i)),
                 Cout (''Instance details :\<newline>'' @ DebugString i @ ''\<newline>'')]))"
  unfolding get_instance_def
  by (simp add: step_defs split: prod.splits sum.splits)

lemma list_clusters_run:
  "list_clusters adm iid (s, tr) =
     (case ListClusters adm iid s of
        (Inl st, s') \<Rightarrow>
          (Throw (message st), s',
           tr @ [Cout ''\<newline>Listing Clusters:\<newline>'',
                 Call 140 (ListClusters_req iid) (ClusterList_resp (Inl st))])
      | (Inr cl, s') \<Rightarrow>
          (Normal (), s',
           tr @ [Cout ''\<newline>Listing Clusters:\<newline>'',
                 Call 140 (ListClusters_req iid) (ClusterList_resp (Inr cl))]
              @ cout_warning (ClusterList.failed_locations cl)
              @ [Cout ''Cluster Name List:\<newline>'']
              @ map (\<lambda>cluster. Cout (''Cluster Name: '' @ Cluster.name cluster @ ''\<newline>''))
                  (ClusterList.clusters cl)
              @ [Cout ''DONE\<newline>'']))"
  unfolding list_clusters_def cout_warning_def
  by (simp add: step_defs for_each_cout_run split: prod.splits sum.splits)

lemma delete_instance_run:
  "delete_instance adm iid (s, tr) =
     (case DeleteInstance adm iid s of
        (st, s') \<Rightarrow>
          (if ok st then
             (Normal (), s',
              tr @ [Cout (''Deleting instance '' @ iid @ ''\<newline>''),
                    Call 162 (DeleteInstance_req iid) (Status_resp st),
                    Cout ''DONE\<newline>''])
           else
             (Throw (message st), s',
              tr @ [Cout (''Deleting instance '' @ iid @ ''\<newline>''),
                    Call 162 (DeleteInstance_req iid) (Status_resp st)])))"
  unfolding delete_instance_def
  by (simp add: step_defs split: prod.splits sum.splits)

lemma seq_check_instance_exists:
  "seq (check_instance_exists adm iid) f (s, tr) =
     (case ListInstances adm s of
        (Inl st, s') \<Rightarrow>
          (Throw (message st), s',
           tr @ [Cout ''\<newline>Check Instance exists:\<newline>'',
                 Call 53 ListInstances_req (InstanceList_resp (Inl st))])
      | (Inr il, s') \<Rightarrow>
          f (find (\<lambda>i. Instance.name i = project_name adm s' @ ''/instances/'' @ iid)
                (InstanceList.instances il) \<noteq> None)
            (s',
             tr @ [Cout ''\<newline>Check Instance exists:\<newline>'',
                   Call 53 ListInstances_req (InstanceList_resp (Inr il))]
                @ cerr_warning (InstanceList.failed_locations il)
                @ [Cout (''The instance '' @ iid
                         @ (if find (\<lambda>i. Instance.name i = project_name adm s' @ ''/instances/'' @ iid)
                                 (InstanceList.instances il) \<noteq> None
                            then ''does'' else ''does not'')
                         @ '' exist already\<newline>'')]))"
  by (simp add: seq_def check_instance_exists_run Let_def split: prod.split sum.split)

lemma seq_if_then:
  "seq (if_then c m) f (s, tr) = (if c then seq m f (s, tr) else f () (s, tr))"
  by (simp add: seq_def if_then_def return_def)

lemma seq_create_production_instance:
  "seq (create_production_instance adm iid cluster_id zone) f (s, tr) =
     (case CreateInstance adm (MkInstanceConfig iid ''Sample Instance'' PRODUCTION
                     [(cluster_id, ClusterConfig zone 3 HDD)]) s of
        (Inl st, s') \<Rightarrow>
          (Throw (message st), s',
           tr @ [Cout ''\<newline>Creating a PRODUCTION Instance: '',
                 Call 89 (CreateInstance_req (MkInstanceConfig iid ''Sample Instance'' PRODUCTION
                     [(cluster_id, ClusterConfig zone 3 HDD)])) (Instance_resp (Inl st)),
                 Cerr (''Could not create instance '' @ iid @ ''\<newline>''),
                 Wait 103])
      | (Inr i, s') \<Rightarrow>
          f () (s',
           tr @ [Cout ''\<newline>Creating a PRODUCTION Instance: '',
                 Call 89 (CreateInstance_req (MkInstanceConfig iid ''Sample Instance'' PRODUCTION
                     [(cluster_id, ClusterConfig zone 3 HDD)])) (Instance_resp (Inr i)),
                 Cout (''Successfully created instance: '' @ DebugString i @ ''\<newline>''),
                 Wait 103,
                 Cout ''DONE\<newline>'']))"
  by (simp add: seq_def create_production_instance_run Let_def split: prod.split sum.split)

lemma seq_list_instances:
  "seq (list_instances adm) f (s, tr) =
     (case ListInstances adm s of
        (Inl st, s') \<Rightarrow>
          (Throw (message st), s',
           tr @ [Cout ''\<newline>Listing Instances:\<newline>'',
                 Call 110 ListInstances_req (InstanceList_resp (Inl st))])
      | (Inr il, s') \<Rightarrow>
          f () (s',
           tr @ [Cout ''\<newline>Listing Instances:\<newline>'',
                 Call 110 ListInstances_req (InstanceList_resp (Inr il))]
              @ cerr_warning (InstanceList.failed_locations il)
              @ map (\<lambda>instance. Cout (''  '' @ Instance.name instance @ ''\<newline>''))
                  (InstanceList.instances il)
              @ [Cout ''DONE\<newline>'']))"
  by (simp add: seq_def list_instances_run split: prod.split sum.split)

lemma seq_get_instance:
  "seq (get_instance adm iid) f (s, tr) =
     (case GetInstance adm iid s of
        (Inl st, s') \<Rightarrow>
          (Throw (message st), s',
           tr @ [Cout ''\<newline>Get Instance:\<newline>'',
                 Call 130 (GetInstance_req iid) (Instance_resp (Inl st))])
      | (Inr i, s') \<Rightarrow>
          f () (s',
           tr @ [Cout ''\<newline>Get Instance:\<newline>'',
                 Call 130 (GetInstance_req iid) (Instance_resp (Inr i)),
                 Cout (''Instance details :\<newline>'' @ DebugString i @ ''\<newline>'')]))"
  by (simp add: seq_def get_instance_run split: prod.split sum.split)

lemma seq_list_clusters:
  "seq (list_clusters adm iid) f (s, tr) =
     (case ListClusters adm iid s of
        (Inl st, s') \<Rightarrow>
          (Throw (message st), s',
           tr @ [Cout ''\<newline>Listing Clusters:\<newline>'',
                 Call 140 (ListClusters_req iid) (ClusterList_resp (Inl st))])
      | (Inr cl, s') \<Rightarrow>
          f () (s',
           tr @ [Cout ''\<newline>Listing Clusters:\<newline>'',
                 Call 140 (ListClusters_req iid) (ClusterList_resp (Inr cl))]
              @ cout_warning (ClusterList.failed_locations cl)
              @ [Cout ''Cluster Name List:\<newline>'']
              @ map (\<lambda>cluster. Cout (''Cluster Name: '' @ Cluster.name cluster @ ''\<newline>''))
                  (ClusterList.clusters cl)
              @ [Cout ''DONE\<newline>'']))"
  by (simp add: seq_def list_clusters_run split: prod.split sum.split)

lemma seq_delete_instance:
  "seq (delete_instance adm iid) f (s, tr) =
     (case DeleteInstance adm iid s of
        (st, s') \<Rightarrow>
          (if ok st then
             f () (s',
              tr @ [Cout (''Deleting instance '' @ iid @ ''\<newline>''),
                    Call 162 (DeleteInstance_req iid) (Status_resp st),
                    Cout ''DONE\<newline>''])
           else
             (Throw (message st), s',
              tr @ [Cout (''Deleting instance '' @ iid @ ''\<newline>''),
                    Call 162 (DeleteInstance_req iid) (Status_resp st)])))"
  by (simp add: seq_def delete_instance_run split: prod.split)

lemmas seq_runs = seq_check_instance_exists seq_if_then seq_create_production_instance
  seq_list_instances seq_get_instance seq_list_clusters seq_delete_instance return_def


lemma catch_handler_simps:
  "catch_handler (Normal n, s, tr) = (Exit n, tr)"
  "catch_handler (Throw msg, s, tr) =
     (Exit 1, tr @ [Cerr (''Standard C++ exception raised: '' @ what msg @ ''\<newline>'')])"
  "catch_handler (Undefined u, s, tr) = (UndefinedBehaviour u, tr)"
  by (simp_all add: catch_handler_def)

subsection \<open>The usage branch\<close>

lemma find_last_of_less: "find_last_of s c = Some i \<Longrightarrow> i < length s"
  by (induction s arbitrary: i) (auto split: option.splits if_splits)

lemma plus_one_find_last_of: "plus_one (find_last_of s c) \<le> length s"
  using find_last_of_less [of s c] by (cases "find_last_of s c") (auto simp: plus_one_def)

lemma usage_run:
  "usage (cmd # args) ((), tr) =
     (Normal 1, (), tr @ [Cerr (usage_text (drop (plus_one (find_last_of cmd CHR ''/'')) cmd))])"
  using plus_one_find_last_of [of cmd "CHR ''/''"]
  by (simp add: usage_def substr_def seq_def return_def cerr_run Let_def)

lemma main_usage:
  "length (cmd # args) \<noteq> 5 \<Longrightarrow>
   main adm (cmd # args) =
     (Exit 1, [Cerr (usage_text (drop (plus_one (find_last_of cmd CHR ''/'')) cmd))])"
  by (simp add: main_def usage_run catch_handler_simps)

lemma main_no_argv: "main adm [] = (UndefinedBehaviour NullArgv, [])"
  by (simp add: main_def usage_def catch_handler_simps)

lemma main_admin:
  "length argv = 5 \<Longrightarrow>
   main adm argv =
     catch_handler (admin_steps adm (argv ! 2) (argv ! 3) (argv ! 4)
       (CreateDefaultInstanceAdminClient adm (argv ! 1), [Connect (argv ! 1)]))"
  by (simp add: main_def Let_def)

subsection \<open>Observations over the pieces of a trace\<close>

lemma not_output_notin [simp]:
  "\<not> is_output e \<Longrightarrow> e \<notin> set (cerr_warning ls)"
  "\<not> is_output e \<Longrightarrow> e \<notin> set (cout_warning ls)"
  "\<not> is_output e \<Longrightarrow> e \<notin> (\<lambda>x. Cout (f x)) ` A"
  "\<not> is_output e \<Longrightarrow> e \<notin> (\<lambda>x. Cerr (g x)) ` A"
  by (auto simp: cerr_warning_def cout_warning_def)

lemma calls_append [simp]: "calls (tr @ tr') = calls tr @ calls tr'"
  by (induction tr rule: calls.induct) simp_all

lemma calls_map_outputs [simp]:
  "calls (map (\<lambda>x. Cout (f x)) xs) = []"
  "calls (map (\<lambda>x. Cerr (g x)) xs) = []"
  by (induction xs) simp_all

lemma calls_warnings [simp]:
  "calls (cerr_warning ls) = []"
  "calls (cout_warning ls) = []"
  by (simp_all add: cerr_warning_def cout_warning_def)

lemma operations_append [simp]: "operations (tr @ tr') = operations tr @ operations tr'"
  by (induction tr rule: operations.induct) simp_all

lemma operations_map_outputs [simp]:
  "operations (map (\<lambda>x. Cout (f x)) xs) = []"
  "operations (map (\<lambda>x. Cerr (g x)) xs) = []"
  by (induction xs) simp_all

lemma operations_warnings [simp]:
  "operations (cerr_warning ls) = []"
  "operations (cout_warning ls) = []"
  by (simp_all add: cerr_warning_def cout_warning_def)

lemma list_ex_outputs [simp]:
  "(\<And>x. \<not> P (Cout x)) \<Longrightarrow> \<not> list_ex P (map (\<lambda>x. Cout (f x)) xs)"
  "(\<And>x. \<not> P (Cerr x)) \<Longrightarrow> \<not> list_ex P (map (\<lambda>x. Cerr (f x)) xs)"
  "(\<And>x. \<not> P (Cerr x)) \<Longrightarrow> \<not> list_ex P (cerr_warning ls)"
  "(\<And>x. \<not> P (Cout x)) \<Longrightarrow> \<not> list_ex P (cout_warning ls)"
  by (auto simp: cerr_warning_def cout_warning_def list_ex_iff)

lemma find_None_list_ex: "(find P xs = None) = (\<not> list_ex P xs)"
  by (auto simp: find_None_iff list_ex_iff)


lemma waits_append [simp]: "waits (tr @ tr') = waits tr @ waits tr'"
  by (induction tr rule: waits.induct) simp_all

lemma waits_map_outputs [simp]:
  "waits (map (\<lambda>x. Cout (f x)) xs) = []"
  "waits (map (\<lambda>x. Cerr (g x)) xs) = []"
  by (induction xs) simp_all

lemma waits_warnings [simp]:
  "waits (cerr_warning ls) = []"
  "waits (cout_warning ls) = []"
  by (simp_all add: cerr_warning_def cout_warning_def)

lemmas main_steps = main_admin admin_steps_def seq_runs catch_handler_simps

subsection \<open>How a run ends, against its admin calls\<close>

lemma thrown_by_last_call_simps:
  "thrown_by_last_call (Normal n, s, tr) =
     (n = 0 \<and> list_all (\<lambda>(l, rq, rs). succeeded rs) (calls tr))"
  "thrown_by_last_call (Throw msg, s, tr) =
     (calls tr \<noteq> [] \<and> \<not> succeeded (snd (snd (last (calls tr))))
      \<and> msg = message (response_status (snd (snd (last (calls tr))))))"
  "thrown_by_last_call (Undefined u, s, tr) = False"
  by (simp_all add: thrown_by_last_call_def)

lemma admin_steps_thrown_by_last_call:
  "thrown_by_last_call (admin_steps adm iid cid zone (s0, [Connect p]))"
  by (simp add: admin_steps_def seq_runs thrown_by_last_call_simps has_value_def status_def
        split: prod.split sum.split)


lemma Call_in_calls: "Call l rq rs \<in> set tr \<Longrightarrow> (l, rq, rs) \<in> set (calls tr)"
proof (induction tr)
  case Nil
  then show ?case by simp
next
  case (Cons e tr)
  then show ?case by (cases e) auto
qed

lemma failure_is_last:
  assumes "list_all P (butlast xs)" and "x \<in> set xs" and "\<not> P x"
  shows "x = last xs"
proof -
  from assms(2) have "xs \<noteq> []" by auto
  then have "butlast xs @ [last xs] = xs" by simp
  with assms(2) have "x \<in> set (butlast xs @ [last xs])" by simp
  then have "x \<in> set (butlast xs) \<or> x = last xs" by auto
  with assms(1,3) show ?thesis by (auto simp: list_all_iff)
qed

lemma calls_succeed_but_last:
  "list_all (\<lambda>(l, rq, rs). succeeded rs) (butlast (calls (snd (main adm argv))))"
proof (cases "length argv = 5")
  case True
  then show ?thesis
    by (simp add: main_steps has_value_def split: prod.split sum.split)
next
  case False
  then show ?thesis
    by (cases argv) (simp_all add: main_no_argv main_usage)
qed

lemma main_outcome:
  assumes "length argv = 5"
  shows "(\<exists>tr. main adm argv = (Exit 0, tr) \<and> list_all (\<lambda>(l, rq, rs). succeeded rs) (calls tr))
    \<or> (\<exists>tr. main adm argv =
            (Exit 1, tr @ [Cerr (''Standard C++ exception raised: ''
               @ what (message (response_status (snd (snd (last (calls tr)))))) @ ''\<newline>'')])
          \<and> \<not> succeeded (snd (snd (last (calls tr)))))"
proof -
  obtain r s tr where
    steps: "admin_steps adm (argv ! 2) (argv ! 3) (argv ! 4)
       (CreateDefaultInstanceAdminClient adm (argv ! 1), [Connect (argv ! 1)]) = (r, s, tr)"
    using prod_cases3 by blast
  have last_call: "thrown_by_last_call (r, s, tr)"
    using admin_steps_thrown_by_last_call
      [of adm "argv ! 2" "argv ! 3" "argv ! 4" "CreateDefaultInstanceAdminClient adm (argv ! 1)" "argv ! 1"]
    by (simp only: steps)
  have m: "main adm argv = catch_handler (r, s, tr)"
    by (simp only: main_admin [OF assms] steps)
  show ?thesis
  proof (cases r)
    case (Normal n)
    with last_call have "n = 0" and "list_all (\<lambda>(l, rq, rs). succeeded rs) (calls tr)"
      by (simp_all add: thrown_by_last_call_simps)
    with m Normal have "main adm argv = (Exit 0, tr)
        \<and> list_all (\<lambda>(l, rq, rs). succeeded rs) (calls tr)"
      by (simp add: catch_handler_simps)
    then show ?thesis by blast
  next
    case (Throw msg)
    with last_call have "\<not> succeeded (snd (snd (last (calls tr))))"
      and "msg = message (response_status (snd (snd (last (calls tr)))))"
      by (simp_all add: thrown_by_last_call_simps)
    with m Throw have "main adm argv =
            (Exit 1, tr @ [Cerr (''Standard C++ exception raised: ''
               @ what (message (response_status (snd (snd (last (calls tr)))))) @ ''\<newline>'')])
          \<and> \<not> succeeded (snd (snd (last (calls tr))))"
      by (simp add: catch_handler_simps)
    then show ?thesis by blast
  next
    case (Undefined u)
    with last_call show ?thesis
      by (simp add: thrown_by_last_call_simps)
  qed
qed

subsection \<open>Runs with and without failed locations\<close>

lemma unaffected_simp:
  "unaffected (r, s, tr) (r', s', tr') =
     (r = r' \<and> s = s'
      \<and> calls tr = map (\<lambda>(l, rq, rs). (l, rq, clear_response rs)) (calls tr'))"
  by (simp add: unaffected_def)

lemma without_failed_locations_simps [simp]:
  "CreateDefaultInstanceAdminClient (without_failed_locations adm) = CreateDefaultInstanceAdminClient adm"
  "project_name (without_failed_locations adm) = project_name adm"
  "CreateInstance (without_failed_locations adm) = CreateInstance adm"
  "GetInstance (without_failed_locations adm) = GetInstance adm"
  "DeleteInstance (without_failed_locations adm) = DeleteInstance adm"
  by (simp_all add: without_failed_locations_def)

lemma case_ListInstances_without:
  "(case ListInstances (without_failed_locations adm) s of
      (Inl st, s') \<Rightarrow> A st s' | (Inr il, s') \<Rightarrow> B il s') =
   (case ListInstances adm s of
      (Inl st, s') \<Rightarrow> A st s'
    | (Inr il, s') \<Rightarrow> B (InstanceList (InstanceList.instances il) []) s')"
  by (simp add: without_failed_locations_def clear_instances_def split: prod.split sum.split)

lemma case_ListClusters_without:
  "(case ListClusters (without_failed_locations adm) iid s of
      (Inl st, s') \<Rightarrow> A st s' | (Inr cl, s') \<Rightarrow> B cl s') =
   (case ListClusters adm iid s of
      (Inl st, s') \<Rightarrow> A st s'
    | (Inr cl, s') \<Rightarrow> B (ClusterList (ClusterList.clusters cl) []) s')"
  by (simp add: without_failed_locations_def clear_clusters_def split: prod.split sum.split)

lemma admin_steps_unaffected:
  "unaffected (admin_steps (without_failed_locations adm) iid cid zone (s, [Connect p]))
     (admin_steps adm iid cid zone (s, [Connect p]))"
  by (simp add: admin_steps_def seq_runs case_ListInstances_without case_ListClusters_without
        unaffected_simp clear_instances_def clear_clusters_def
        split: prod.split sum.split)

lemma in_cerr_warning [simp]:
  "loc \<in> set ls \<Longrightarrow> Cerr (CHR '' '' # loc) \<in> set (cerr_warning ls)"
  by (auto simp: cerr_warning_def)

lemma in_cout_warning [simp]:
  "loc \<in> set ls \<Longrightarrow> Cout (loc @ ''\<newline>'') \<in> set (cout_warning ls)"
  by (auto simp: cout_warning_def)

lemma instance_warnings_printed:
  "Call l ListInstances_req (InstanceList_resp (Inr il)) \<in> set (snd (main adm argv)) \<longrightarrow>
   loc \<in> set (InstanceList.failed_locations il) \<longrightarrow>
   Cerr ('' '' @ loc) \<in> set (snd (main adm argv))"
proof (cases "length argv = 5")
  case True
  then show ?thesis
    by (simp add: main_steps split: prod.split sum.split)
next
  case False
  then show ?thesis
    by (cases argv) (simp_all add: main_no_argv main_usage)
qed

lemma cluster_warnings_printed:
  "Call l (ListClusters_req iid) (ClusterList_resp (Inr cl)) \<in> set (snd (main adm argv)) \<longrightarrow>
   loc \<in> set (ClusterList.failed_locations cl) \<longrightarrow>
   Cout (loc @ ''\<newline>'') \<in> set (snd (main adm argv))"
proof (cases "length argv = 5")
  case True
  then show ?thesis
    by (simp add: main_steps split: prod.split sum.split)
next
  case False
  then show ?thesis
    by (cases argv) (simp_all add: main_no_argv main_usage)
qed

lemma main_unaffected:
  "fst (main (without_failed_locations adm) argv) = fst (main adm argv)
   \<and> calls (snd (main (without_failed_locations adm) argv))
       = map (\<lambda>(l, rq, rs). (l, rq, clear_response rs)) (calls (snd (main adm argv)))"
proof (cases "length argv = 5")
  case True
  obtain r s tr where
    steps: "admin_steps adm (argv ! 2) (argv ! 3) (argv ! 4)
       (CreateDefaultInstanceAdminClient adm (argv ! 1), [Connect (argv ! 1)]) = (r, s, tr)"
    using prod_cases3 by blast
  obtain r' s' tr' where
    steps': "admin_steps (without_failed_locations adm) (argv ! 2) (argv ! 3) (argv ! 4)
       (CreateDefaultInstanceAdminClient adm (argv ! 1), [Connect (argv ! 1)]) = (r', s', tr')"
    using prod_cases3 by blast
  have "unaffected (r', s', tr') (r, s, tr)"
    using admin_steps_unaffected
      [of adm "argv ! 2" "argv ! 3" "argv ! 4" "CreateDefaultInstanceAdminClient adm (argv ! 1)" "argv ! 1"]
    by (simp only: steps steps')
  then have same: "r' = r"
    and calls_eq: "calls tr' = map (\<lambda>(l, rq, rs). (l, rq, clear_response rs)) (calls tr)"
    by (simp_all add: unaffected_simp)
  have m: "main adm argv = catch_handler (r, s, tr)"
    by (simp only: main_admin [OF True] steps)
  have m': "main (without_failed_locations adm) argv = catch_handler (r, s', tr')"
    by (simp only: main_admin [OF True] without_failed_locations_simps steps' same)
  show ?thesis
    using calls_eq by (cases r) (simp_all add: m m' catch_handler_simps)
next
  case False
  then show ?thesis
    by (cases argv) (simp_all add: main_no_argv main_usage)
qed

section \<open>The claims\<close>

subsection \<open>C1: the instance is created exactly when it is absent\<close>

text \<open>
  C1, as amended. In a run with five arguments whose first \<^verbatim>\<open>ListInstances\<close> call
  succeeds, \<^verbatim>\<open>CreateInstance\<close> is called if and only if no instance of that first
  result is named \<^verbatim>\<open>project_name() + "/instances/" + instance_id\<close>; when one is,
  the run has no \<^verbatim>\<open>CreateInstance\<close> call at all.
\<close>

theorem create_iff_absent:
  assumes "length argv = 5"
    and "has_value (fst (ListInstances adm (CreateDefaultInstanceAdminClient adm (argv ! 1))))"
  shows "create_invoked (snd (main adm argv)) =
     absent (fst (ListInstances adm (CreateDefaultInstanceAdminClient adm (argv ! 1))))
       (project_name adm (snd (ListInstances adm (CreateDefaultInstanceAdminClient adm (argv ! 1))))
        @ ''/instances/'' @ argv ! 2)"
proof -
  obtain il s1 where
    first: "ListInstances adm (CreateDefaultInstanceAdminClient adm (argv ! 1)) = (Inr il, s1)"
    using assms(2)
    by (cases "ListInstances adm (CreateDefaultInstanceAdminClient adm (argv ! 1))")
       (auto simp: has_value_def split: sum.splits)
  show ?thesis
    using assms(1) first
    by (simp add: main_admin admin_steps_def seq_runs catch_handler_simps create_invoked_def
          absent_def listed_def find_None_list_ex
          split: prod.split sum.split)
qed

theorem create_iff_absent_witness:
  "create_invoked (snd (main (in_memory_admin []) example_argv))
   \<and> \<not> create_invoked (snd (main (in_memory_admin [''i'']) example_argv))"
  using create_iff_absent [of example_argv "in_memory_admin []"]
    create_iff_absent [of example_argv "in_memory_admin [''i'']"]
  by (simp add: example_argv_def in_memory_admin_def has_value_def absent_def listed_def)

text \<open>
  Without the hypothesis on the first call the equivalence fails: when
  \<^verbatim>\<open>ListInstances\<close> fails the result lists no instance, so the instance is absent
  from it, and the run throws before it creates anything.
\<close>

theorem create_iff_absent_needs_listing:
  "length example_argv = 5
   \<and> create_invoked (snd (main unavailable_admin example_argv)) \<noteq>
     absent (fst (ListInstances unavailable_admin
                    (CreateDefaultInstanceAdminClient unavailable_admin (example_argv ! 1))))
       (project_name unavailable_admin
          (snd (ListInstances unavailable_admin
                  (CreateDefaultInstanceAdminClient unavailable_admin (example_argv ! 1))))
        @ ''/instances/'' @ example_argv ! 2)"
  by (simp add: main_admin admin_steps_def seq_runs catch_handler_simps create_invoked_def
        absent_def listed_def example_argv_def unavailable_admin_def in_memory_admin_def)

subsection \<open>C4: no value is read from a failed result\<close>

text \<open>
  C4. No run of \<^verbatim>\<open>main\<close> reads the value of a \<^verbatim>\<open>StatusOr\<close> that holds a failure:
  each of the five results is tested before every \<^verbatim>\<open>operator->\<close> on it, so the
  run never ends in the undefined behaviour of such a read.
\<close>

theorem no_bad_status_or_access:
  "fst (main adm argv) \<noteq> UndefinedBehaviour BadStatusOrAccess"
proof (cases "length argv = 5")
  case True
  then show ?thesis
    by (simp add: main_admin admin_steps_def seq_runs catch_handler_simps
          split: prod.split sum.split)
next
  case False
  then show ?thesis
    by (cases argv) (simp_all add: main_no_argv main_usage)
qed

theorem no_bad_status_or_access_witness:
  "fst (main unavailable_admin example_argv) \<noteq> UndefinedBehaviour BadStatusOrAccess"
  by (rule no_bad_status_or_access)

subsection \<open>C9: the configuration of the created instance\<close>

text \<open>
  C9. Every \<^verbatim>\<open>CreateInstance\<close> call of a run passes the same configuration: the
  instance id of the command line, the display name \<^verbatim>\<open>Sample Instance\<close>, the type
  \<^verbatim>\<open>PRODUCTION\<close>, and exactly one cluster, named by the cluster-id argument, in the
  zone argument, with 3 nodes and HDD storage.
\<close>

theorem create_config_fixed:
  assumes "Call l (CreateInstance_req config) rs \<in> set (snd (main adm argv))"
  shows "instance_id config = argv ! 2 \<and> display_name config = ''Sample Instance''
     \<and> type config = PRODUCTION
     \<and> InstanceConfig.clusters config = [(argv ! 3, ClusterConfig (argv ! 4) 3 HDD)]"
proof (cases "length argv = 5")
  case True
  with assms show ?thesis
    by (simp add: main_admin admin_steps_def seq_runs catch_handler_simps
          split: prod.split_asm sum.split_asm if_split_asm)
next
  case False
  with assms show ?thesis
    by (cases argv) (simp_all add: main_no_argv main_usage)
qed

theorem create_config_fixed_witness:
  "instance_id (MkInstanceConfig ''i'' ''Sample Instance'' PRODUCTION
                  [(''c'', ClusterConfig ''z'' 3 HDD)]) = example_argv ! 2
   \<and> InstanceConfig.clusters (MkInstanceConfig ''i'' ''Sample Instance'' PRODUCTION
                  [(''c'', ClusterConfig ''z'' 3 HDD)])
       = [(example_argv ! 3, ClusterConfig (example_argv ! 4) 3 HDD)]"
proof -
  have h: "Call 89 (CreateInstance_req (MkInstanceConfig ''i'' ''Sample Instance'' PRODUCTION
             [(''c'', ClusterConfig ''z'' 3 HDD)]))
     (Instance_resp (Inr (Instance ''projects/p/instances/i'' ''i'')))
   \<in> set (snd (main (in_memory_admin []) example_argv))"
    by code_simp
  show ?thesis
    using create_config_fixed [OF h] by simp
qed

subsection \<open>C2: a failed admin call ends the run with exit code 1\<close>

text \<open>
  C2. In every run, an admin call that fails (a \<^verbatim>\<open>StatusOr\<close> without a value, a
  \<^verbatim>\<open>Status\<close> that is not OK) makes \<^verbatim>\<open>main\<close> return 1, and the last write of
  the run is the handler's line on \<^verbatim>\<open>std::cerr\<close> with \<^verbatim>\<open>what()\<close> of the
  exception built from the message of that status, which is that message as a C string:
  up to its first NUL byte, and the whole message when it has none.
  \<^verbatim>\<open>main\<close> returns 0 only when every admin call it made succeeded.
\<close>

theorem failed_call_exits_1:
  "(Call l rq rs \<in> set (snd (main adm argv)) \<and> \<not> succeeded rs \<longrightarrow>
      fst (main adm argv) = Exit 1
      \<and> last (snd (main adm argv))
          = Cerr (''Standard C++ exception raised: '' @ what (message (response_status rs)) @ ''\<newline>''))
   \<and> (fst (main adm argv) = Exit 0 \<longrightarrow>
        (\<forall>(l, rq, rs)\<in>set (calls (snd (main adm argv))). succeeded rs))"
proof (cases "length argv = 5")
  case True
  from main_outcome [OF True, of adm] show ?thesis
  proof (elim disjE exE conjE)
    fix tr
    assume m: "main adm argv = (Exit 0, tr)"
      and ok: "list_all (\<lambda>(l, rq, rs). succeeded rs) (calls tr)"
    have "\<not> (Call l rq rs \<in> set tr \<and> \<not> succeeded rs)"
      using ok Call_in_calls [of l rq rs tr] by (auto simp: list_all_iff)
    with m ok show ?thesis by (simp add: list_all_iff)
  next
    fix tr
    assume m: "main adm argv =
            (Exit 1, tr @ [Cerr (''Standard C++ exception raised: ''
               @ what (message (response_status (snd (snd (last (calls tr)))))) @ ''\<newline>'')])"
      and failed: "\<not> succeeded (snd (snd (last (calls tr))))"
    have calls_eq: "calls (snd (main adm argv)) = calls tr"
      by (simp add: m)
    have exit_1: "fst (main adm argv) = Exit 1"
      by (simp only: m fst_conv)
    have last_eq: "last (snd (main adm argv)) =
        Cerr (''Standard C++ exception raised: ''
               @ what (message (response_status (snd (snd (last (calls tr)))))) @ ''\<newline>'')"
      by (simp only: m snd_conv last_snoc)
    have rs_eq: "snd (snd (last (calls tr))) = rs"
      if h: "Call l rq rs \<in> set (snd (main adm argv))" "\<not> succeeded rs"
    proof -
      from h(1) have "(l, rq, rs) \<in> set (calls (snd (main adm argv)))"
        by (rule Call_in_calls)
      then have mem: "(l, rq, rs) \<in> set (calls tr)"
        by (simp only: calls_eq)
      have but_last: "list_all (\<lambda>(l, rq, rs). succeeded rs) (butlast (calls tr))"
        using calls_succeed_but_last [of adm argv] by (simp only: calls_eq)
      from h(2) have "\<not> (\<lambda>(l, rq, rs). succeeded rs) (l, rq, rs)" by simp
      with but_last mem have "(l, rq, rs) = last (calls tr)"
        by (rule failure_is_last)
      then have "last (calls tr) = (l, rq, rs)" by (rule sym)
      then show ?thesis by simp
    qed
    have first: "Call l rq rs \<in> set (snd (main adm argv)) \<and> \<not> succeeded rs \<longrightarrow>
      fst (main adm argv) = Exit 1
      \<and> last (snd (main adm argv))
          = Cerr (''Standard C++ exception raised: '' @ what (message (response_status rs)) @ ''\<newline>'')"
    proof (intro impI)
      assume h: "Call l rq rs \<in> set (snd (main adm argv)) \<and> \<not> succeeded rs"
      then have "snd (snd (last (calls tr))) = rs"
        using rs_eq by simp
      with exit_1 last_eq show "fst (main adm argv) = Exit 1
        \<and> last (snd (main adm argv))
          = Cerr (''Standard C++ exception raised: '' @ what (message (response_status rs)) @ ''\<newline>'')"
        by simp
    qed
    have second: "fst (main adm argv) = Exit 0 \<longrightarrow>
        (\<forall>(l, rq, rs)\<in>set (calls (snd (main adm argv))). succeeded rs)"
      by (simp only: exit_1) simp
    from first second show ?thesis by (rule conjI)
  qed
next
  case False
  then show ?thesis
    by (cases argv) (simp_all add: main_no_argv main_usage)
qed

theorem failed_call_exits_1_witness:
  "fst (main unavailable_admin example_argv) = Exit 1
   \<and> last (snd (main unavailable_admin example_argv))
       = Cerr ''Standard C++ exception raised: unavailable\<newline>''
   \<and> fst (main nul_admin example_argv) = Exit 1
   \<and> last (snd (main nul_admin example_argv))
       = Cerr ''Standard C++ exception raised: a\<newline>''"
proof -
  have h: "Call 53 ListInstances_req (InstanceList_resp (Inl (Status 14 ''unavailable'')))
             \<in> set (snd (main unavailable_admin example_argv))
           \<and> \<not> succeeded (InstanceList_resp (Inl (Status 14 ''unavailable'')))"
    by code_simp
  have h': "Call 53 ListInstances_req
              (InstanceList_resp (Inl (Status 14 [CHR ''a'', CHR 0x00, CHR ''b''])))
             \<in> set (snd (main nul_admin example_argv))
           \<and> \<not> succeeded (InstanceList_resp (Inl (Status 14 [CHR ''a'', CHR 0x00, CHR ''b''])))"
    by code_simp
  show ?thesis
    using failed_call_exits_1 [of 53 ListInstances_req
        "InstanceList_resp (Inl (Status 14 ''unavailable''))" unavailable_admin example_argv] h
      failed_call_exits_1 [of 53 ListInstances_req
        "InstanceList_resp (Inl (Status 14 [CHR ''a'', CHR 0x00, CHR ''b'']))" nul_admin example_argv] h'
    by (simp add: status_def what_def)
qed

subsection \<open>C3: the order of the operations\<close>

text \<open>
  C3, as amended. In every run that returns 0 the operations are, in this order:
  connect, list the instances, create the instance if it is absent from that list,
  list the instances, fetch the instance, list its clusters, delete the instance.
  The delete is the last operation whether the instance was there or was just created.
\<close>

theorem operations_in_order:
  assumes "fst (main adm argv) = Exit 0"
  shows "length argv = 5 \<and> operations (snd (main adm argv)) =
     [Connect_op (argv ! 1), Request ListInstances_req]
     @ (if absent (fst (ListInstances adm (CreateDefaultInstanceAdminClient adm (argv ! 1))))
             (project_name adm
                (snd (ListInstances adm (CreateDefaultInstanceAdminClient adm (argv ! 1))))
              @ ''/instances/'' @ argv ! 2)
        then [Request (CreateInstance_req (MkInstanceConfig (argv ! 2) ''Sample Instance''
                PRODUCTION [(argv ! 3, ClusterConfig (argv ! 4) 3 HDD)]))]
        else [])
     @ [Request ListInstances_req, Request (GetInstance_req (argv ! 2)),
        Request (ListClusters_req (argv ! 2)), Request (DeleteInstance_req (argv ! 2))]"
proof (cases "length argv = 5")
  case True
  with assms show ?thesis
    by (simp add: main_steps absent_def listed_def find_None_list_ex
          split: prod.split_asm sum.split_asm if_split_asm)
next
  case False
  with assms show ?thesis
    by (cases argv) (simp_all add: main_no_argv main_usage)
qed


theorem operations_in_order_witness:
  "operations (snd (main (in_memory_admin []) example_argv)) =
     [Connect_op ''p'', Request ListInstances_req,
      Request (CreateInstance_req (MkInstanceConfig ''i'' ''Sample Instance'' PRODUCTION
                 [(''c'', ClusterConfig ''z'' 3 HDD)])),
      Request ListInstances_req, Request (GetInstance_req ''i''),
      Request (ListClusters_req ''i''), Request (DeleteInstance_req ''i'')]"
proof -
  have h: "fst (main (in_memory_admin []) example_argv) = Exit 0"
    by code_simp
  show ?thesis
    using operations_in_order [OF h]
    by (simp add: example_argv_def in_memory_admin_def absent_def listed_def)
qed

text \<open>
  The order of the claim, with the clusters listed before the instance is fetched, is
  not the order of a run: the program fetches the instance first (line 130) and lists
  the clusters after (line 140).
\<close>

theorem clusters_listed_after_fetch:
  "fst (main (in_memory_admin []) example_argv) = Exit 0
   \<and> operations (snd (main (in_memory_admin []) example_argv)) \<noteq>
     [Connect_op ''p'', Request ListInstances_req,
      Request (CreateInstance_req (MkInstanceConfig ''i'' ''Sample Instance'' PRODUCTION
                 [(''c'', ClusterConfig ''z'' 3 HDD)])),
      Request ListInstances_req, Request (ListClusters_req ''i''),
      Request (GetInstance_req ''i''), Request (DeleteInstance_req ''i'')]"
  by code_simp

subsection \<open>C5: one wait on a future\<close>

text \<open>
  C5. A run waits on a future at most once, at line 103 (\<^verbatim>\<open>creation_done.get()\<close>),
  and it does so exactly when it has five arguments, its first \<^verbatim>\<open>ListInstances\<close>
  call succeeded and the instance is absent from that result; no other step of the
  program waits.
\<close>

theorem single_blocking_wait:
  "waits (snd (main adm argv)) =
     (if length argv = 5
         \<and> has_value (fst (ListInstances adm (CreateDefaultInstanceAdminClient adm (argv ! 1))))
         \<and> absent (fst (ListInstances adm (CreateDefaultInstanceAdminClient adm (argv ! 1))))
             (project_name adm
                (snd (ListInstances adm (CreateDefaultInstanceAdminClient adm (argv ! 1))))
              @ ''/instances/'' @ argv ! 2)
      then [103] else [])"
proof (cases "length argv = 5")
  case True
  obtain r1 s1 where
    first: "ListInstances adm (CreateDefaultInstanceAdminClient adm (argv ! 1)) = (r1, s1)"
    by (cases "ListInstances adm (CreateDefaultInstanceAdminClient adm (argv ! 1))")
  show ?thesis
  proof (cases r1)
    case (Inl st)
    with True first show ?thesis
      by (simp add: main_steps has_value_def)
  next
    case (Inr il)
    with True first show ?thesis
      by (simp add: main_steps absent_def listed_def find_None_list_ex has_value_def
            split: prod.split sum.split)
  qed
next
  case False
  then show ?thesis
    by (cases argv) (simp_all add: main_no_argv main_usage)
qed

theorem single_blocking_wait_witness:
  "waits (snd (main (in_memory_admin []) example_argv)) = [103]
   \<and> waits (snd (main (in_memory_admin [''i'']) example_argv)) = []"
  using single_blocking_wait [of "in_memory_admin []" example_argv]
    single_blocking_wait [of "in_memory_admin [''i'']" example_argv]
  by (simp add: example_argv_def in_memory_admin_def has_value_def absent_def listed_def)

subsection \<open>C6: no call is made twice\<close>

text \<open>
  C6. In every run no line of the source makes its admin call twice, every call is
  made from a line that calls that operation (two lines, 53 and 110, for
  \<^verbatim>\<open>ListInstances\<close>, one line for every other operation), and every call but the
  last one of the run succeeded: after a failure the run makes no further call.
\<close>

theorem no_retry:
  "distinct (map fst (calls (snd (main adm argv))))
   \<and> (\<forall>(l, rq, rs)\<in>set (calls (snd (main adm argv))). l \<in> set (call_sites rq))
   \<and> list_all succeeded (map (\<lambda>(l, rq, rs). rs) (butlast (calls (snd (main adm argv)))))"
proof (cases "length argv = 5")
  case True
  then show ?thesis
    by (simp add: main_steps has_value_def split: prod.split sum.split)
next
  case False
  then show ?thesis
    by (cases argv) (simp_all add: main_no_argv main_usage)
qed


theorem no_retry_witness:
  "distinct (map fst (calls (snd (main unavailable_admin example_argv))))"
  using no_retry [of unavailable_admin example_argv] by simp

subsection \<open>C7: the usage message\<close>

text \<open>
  C7, as amended. When the program is given its name and a number of arguments other
  than four (so \<open>argc\<close> is at least 1 and differs from 5), it writes the usage message,
  with the program name after the last slash, to \<^verbatim>\<open>std::cerr\<close> and returns 1; the
  trace has no other event: no connection and no admin call.
\<close>

theorem usage_on_wrong_argc:
  assumes "argv \<noteq> []" and "length argv \<noteq> 5"
  shows "main adm argv =
     (Exit 1, [Cerr (usage_text (drop (plus_one (find_last_of (hd argv) CHR ''/'')) (hd argv)))])"
  using assms by (cases argv) (simp_all add: main_usage)


theorem usage_on_wrong_argc_witness:
  "main (in_memory_admin []) [''./bin/hello'', ''p''] = (Exit 1, [Cerr (usage_text ''hello'')])"
  using usage_on_wrong_argc [of "[''./bin/hello'', ''p'']" "in_memory_admin []"]
  by (simp add: plus_one_def)

text \<open>
  With no argument at all, not even the program name, \<open>argc\<close> differs from 5 and
  \<^verbatim>\<open>argv[0]\<close> is the null pointer: building a \<^verbatim>\<open>std::string\<close> from it is undefined,
  no usage message is written and nothing says that 1 is returned.
\<close>

theorem usage_undefined_without_argv0:
  "length ([] :: string list) \<noteq> 5
   \<and> main (in_memory_admin []) [] = (UndefinedBehaviour NullArgv, [])"
  by (simp add: main_no_argv)

subsection \<open>C8: failed locations are not fatal\<close>

text \<open>
  C8. The failed locations of a successful \<^verbatim>\<open>ListInstances\<close> or \<^verbatim>\<open>ListClusters\<close>
  result change neither the exit of the run nor its admin calls: both are those of the
  run against the same client reporting no failed location (the calls up to the failed
  locations in their results). Each failed location of such a result is written, after
  a space on \<^verbatim>\<open>std::cerr\<close> for the instances and on a line of \<^verbatim>\<open>std::cout\<close> for
  the clusters.
\<close>

theorem failed_locations_not_fatal:
  "fst (main (without_failed_locations adm) argv) = fst (main adm argv)
   \<and> calls (snd (main (without_failed_locations adm) argv))
       = map (\<lambda>(l, rq, rs). (l, rq, clear_response rs)) (calls (snd (main adm argv)))
   \<and> (Call l ListInstances_req (InstanceList_resp (Inr il)) \<in> set (snd (main adm argv)) \<longrightarrow>
        (\<forall>loc\<in>set (InstanceList.failed_locations il).
           Cerr ('' '' @ loc) \<in> set (snd (main adm argv))))
   \<and> (Call l' (ListClusters_req iid) (ClusterList_resp (Inr cl)) \<in> set (snd (main adm argv)) \<longrightarrow>
        (\<forall>loc\<in>set (ClusterList.failed_locations cl).
           Cout (loc @ ''\<newline>'') \<in> set (snd (main adm argv))))"
  using main_unaffected [of adm argv] instance_warnings_printed [of l il adm argv]
    cluster_warnings_printed [of l' iid cl adm argv]
  by blast

theorem failed_locations_not_fatal_witness:
  "fst (main (without_failed_locations partial_admin) example_argv) = Exit 0
   \<and> Cerr '' us-west1-a'' \<in> set (snd (main partial_admin example_argv))
   \<and> Cout ''us-east1-b\<newline>'' \<in> set (snd (main partial_admin example_argv))"
proof -
  have e: "fst (main partial_admin example_argv) = Exit 0"
    by code_simp
  have h: "Call 53 ListInstances_req
             (InstanceList_resp (Inr (InstanceList [] [''us-east1-b'', ''us-west1-a''])))
           \<in> set (snd (main partial_admin example_argv))"
    by code_simp
  have h': "Call 140 (ListClusters_req ''i'') (ClusterList_resp (Inr (ClusterList [] [''us-east1-b''])))
           \<in> set (snd (main partial_admin example_argv))"
    by code_simp
  show ?thesis
    using failed_locations_not_fatal [where adm = partial_admin and argv = example_argv
        and l = 53 and il = "InstanceList [] [''us-east1-b'', ''us-west1-a'']"
        and l' = 140 and iid = "''i''" and cl = "ClusterList [] [''us-east1-b'']"] e h h'
    by simp
qed


end
